theory Spec2Isabelle
  imports Main "HOL-Library.Sublist"
begin

section \<open>Access control and secure delivery of the research repository backend\<close>

text \<open>
  A shallow embedding of the visibility gate of \<^verbatim>\<open>routes/research.js\<close>
  (\<^verbatim>\<open>canView\<close>, the signed-link mint and the file streamer), of the repository routes
  (\<^verbatim>\<open>buildAllowedFilter\<close>, the single-item and signed-link checks) and of the resolver
  \<^verbatim>\<open>authorizeOrSig\<close> of \<^verbatim>\<open>middleware/authMiddleware.js\<close>.

  Conventions of the model.
  \<^item> Strings are ASCII \<open>char list\<close>s; \<^verbatim>\<open>toLowerCase\<close> maps \<open>A..Z\<close> to \<open>a..z\<close>.
  \<^item> A JavaScript string field that the code reads through \<^verbatim>\<open>String(x || "")\<close> is a
    \<open>string\<close>, the empty string standing for a missing value as well.
  \<^item> Fields that the code tests for presence, or compares with \<^verbatim>\<open>===\<close>, are options.
  \<^item> Instants are integers (milliseconds); \<^verbatim>\<open>new Date()\<close> is the parameter \<open>now\<close>.
  \<^item> \<^verbatim>\<open>jwt.verify\<close>, the document store and the disk are parameters of the functions
    that use them; a call that throws is a value of its own.
\<close>

subsection \<open>Strings\<close>

definition lower_char :: "char \<Rightarrow> char" where
  "lower_char c =
     (let n = (of_char c :: nat) in if 65 \<le> n \<and> n \<le> 90 then char_of (n + 32) else c)"

definition toLowerCase :: "string \<Rightarrow> string" where
  "toLowerCase s = map lower_char s"

definition is_space :: "char \<Rightarrow> bool" where
  "is_space c = ((of_char c :: nat) \<in> {9, 10, 11, 12, 13, 32})"

definition trim :: "string \<Rightarrow> string" where
  "trim s = rev (dropWhile is_space (rev (dropWhile is_space s)))"

text \<open>\<^verbatim>\<open>s.lastIndexOf(c)\<close>, with \<open>None\<close> for \<open>-1\<close>.\<close>

fun lastIndexOf :: "char \<Rightarrow> string \<Rightarrow> nat option" where
  "lastIndexOf c [] = None"
| "lastIndexOf c (x # xs) =
     (case lastIndexOf c xs of
        Some i \<Rightarrow> Some (Suc i)
      | None \<Rightarrow> if x = c then Some 0 else None)"

definition MSUIIT_DOMAIN :: string where
  "MSUIIT_DOMAIN = ''@g.msuiit.edu.ph''"

text \<open>\<^verbatim>\<open>isMsuiitG\<close>: the regular expression \<^verbatim>\<open>/@g\.msuiit\.edu\.ph$/i\<close>, an end-anchored,
  case-insensitive match.\<close>

definition isMsuiitG :: "string \<Rightarrow> bool" where
  "isMsuiitG email = suffix ''@g.msuiit.edu.ph'' (toLowerCase email)"

definition sameEmail :: "string \<Rightarrow> string \<Rightarrow> bool" where
  "sameEmail a b = (toLowerCase (trim a) = toLowerCase (trim b))"

definition userDomain :: "string \<Rightarrow> string" where
  "userDomain email =
     (let e = toLowerCase email
      in case lastIndexOf (CHR ''@'') e of Some at \<Rightarrow> drop at e | None \<Rightarrow> [])"

subsection \<open>Documents, principals, capabilities\<close>

text \<open>The fields of the \<^verbatim>\<open>Research\<close> model that the access paths read. \<open>rid\<close> is
  \<^verbatim>\<open>String(r._id)\<close>, \<open>uploadedBy\<close> is \<^verbatim>\<open>String(r.uploadedBy || "")\<close>.\<close>

record research =
  rid :: string
  status :: "string option"
  visibility :: "string option"
  embargoUntil :: "int option"
  allowedViewers :: "string list option"
  student :: string
  author :: string
  adviser :: string
  uploadedBy :: string
  filePath :: string
  fileName :: string
  fileType :: string

text \<open>The payload of a signed link: the object given to \<^verbatim>\<open>jwt.sign\<close> under
  \<^verbatim>\<open>SIGNED_URL_SECRET\<close>. An absent \<^verbatim>\<open>email\<close>, \<^verbatim>\<open>role\<close> or \<^verbatim>\<open>isCampus\<close> is the
  empty string or \<open>False\<close>, which is how \<^verbatim>\<open>authorizeOrSig\<close> reads it.\<close>

record sig_payload =
  sp_sub :: string
  sp_fileId :: string
  sp_email :: string
  sp_role :: string
  sp_isCampus :: bool

text \<open>The claims of a decoded bearer token; an empty string is a missing claim.\<close>

record claims =
  c_id :: string
  c_email :: string
  c_role :: string

text \<open>\<^verbatim>\<open>req.user\<close>.\<close>

record user =
  uid :: string
  email :: string
  role :: string
  isCampus :: bool
  signedUrl :: bool
  usig :: "sig_payload option"

record request =
  authorization :: "string option"
  qsig :: "string option"
  qtoken :: "string option"
  isGet :: bool
  paramId :: string

datatype 'a mw = Next 'a | Respond nat string

datatype response =
    Json nat string
  | Stream string string string
  | SignedLink sig_payload string nat

text \<open>The result of \<^verbatim>\<open>Research.findById(id).lean()\<close>: it throws (an id that does not
  cast, a database failure), or returns the document or \<^verbatim>\<open>null\<close>.\<close>

datatype 'a query = Throws | Result "'a option"

subsection \<open>The principal resolvers\<close>

definition principal_of_claims :: "claims \<Rightarrow> user" where
  "principal_of_claims d =
     (let e = toLowerCase (c_email d)
      in \<lparr>uid = c_id d, email = e, role = c_role d, isCampus = isMsuiitG e,
          signedUrl = False, usig = None\<rparr>)"

definition principal_of_sig :: "sig_payload \<Rightarrow> user" where
  "principal_of_sig p =
     \<lparr>uid = sp_sub p, email = toLowerCase (sp_email p), role = sp_role p,
      isCampus = sp_isCampus p, signedUrl = True, usig = Some p\<rparr>"

definition bearer_of :: "string \<Rightarrow> string option" where
  "bearer_of hdr = (if take 7 hdr = ''Bearer '' then Some (drop 7 hdr) else None)"

text \<open>\<^verbatim>\<open>authorize(allowedRoles)\<close>; \<open>verifyBearer\<close> is \<^verbatim>\<open>jwt.verify\<close> under
  \<^verbatim>\<open>JWT_SECRET\<close> with the issuer and the clock tolerance, \<open>None\<close> when it throws.\<close>

definition authorize ::
  "string list \<Rightarrow> (string \<Rightarrow> claims option) \<Rightarrow> request \<Rightarrow> user mw" where
  "authorize allowedRoles verifyBearer req =
     (let hdr = (case authorization req of None \<Rightarrow> [] | Some h \<Rightarrow> h);
          token = (case bearer_of hdr of
                     Some t \<Rightarrow> (if t = [] then (if isGet req then qtoken req else None) else Some t)
                   | None \<Rightarrow> (if isGet req then qtoken req else None))
      in case token of
           None \<Rightarrow> Respond 401 ''Missing or invalid token''
         | Some t \<Rightarrow>
             if t = [] then Respond 401 ''Missing or invalid token''
             else (case verifyBearer t of
                     None \<Rightarrow> Respond 401 ''Invalid or expired token''
                   | Some d \<Rightarrow>
                       if c_id d = [] \<or> c_email d = [] \<or> c_role d = []
                       then Respond 400 ''Malformed token''
                       else if allowedRoles = [] then Next (principal_of_claims d)
                       else if c_role d \<in> set allowedRoles then Next (principal_of_claims d)
                       else Respond 403 ''Forbidden: insufficient privileges''))"

text \<open>The signed-link half of \<^verbatim>\<open>authorizeOrSig\<close>; \<open>verifySig\<close> is \<^verbatim>\<open>jwt.verify\<close>
  under \<^verbatim>\<open>SIGNED_URL_SECRET\<close>.\<close>

definition sig_path :: "(string \<Rightarrow> sig_payload option) \<Rightarrow> request \<Rightarrow> user mw" where
  "sig_path verifySig req =
     (case qsig req of
        None \<Rightarrow> Respond 401 ''Missing or invalid token''
      | Some s \<Rightarrow>
          if s = [] then Respond 401 ''Missing or invalid token''
          else (case verifySig s of
                  None \<Rightarrow> Respond 401 ''Invalid or expired signed link''
                | Some p \<Rightarrow>
                    if sp_fileId p = [] \<or> sp_sub p = []
                    then Respond 400 ''Malformed signed link''
                    else Next (principal_of_sig p)))"

definition authorizeOrSig ::
  "(string \<Rightarrow> claims option) \<Rightarrow> (string \<Rightarrow> sig_payload option) \<Rightarrow> request \<Rightarrow> user mw" where
  "authorizeOrSig verifyBearer verifySig req =
     (let hdr = (case authorization req of None \<Rightarrow> [] | Some h \<Rightarrow> h)
      in case bearer_of hdr of
           Some token \<Rightarrow>
             (case verifyBearer token of
                Some d \<Rightarrow>
                  if c_id d = [] \<or> c_email d = [] \<or> c_role d = []
                  then Respond 400 ''Malformed token''
                  else Next (principal_of_claims d)
              | None \<Rightarrow> sig_path verifySig req)
         | None \<Rightarrow> sig_path verifySig req)"

subsection \<open>The visibility gate of the research routes\<close>

definition isOwnerStaffOrAdviser :: "research \<Rightarrow> user \<Rightarrow> bool" where
  "isOwnerStaffOrAdviser r u =
     (let email' = toLowerCase (email u);
          userId = uid u;
          role' = toLowerCase (role u);
          isOwnerEmail = (email' \<in> set [toLowerCase (student r), toLowerCase (author r)]);
          isUploader = (uploadedBy r = userId);
          isStaff = (role' = ''staff'' \<or> role' = ''admin'');
          isAdviser = (if email' = [] then False else sameEmail email' (adviser r))
      in isOwnerEmail \<or> isUploader \<or> isStaff \<or> isAdviser)"

definition canView :: "int \<Rightarrow> research \<Rightarrow> user \<Rightarrow> bool" where
  "canView now r u =
     (if isOwnerStaffOrAdviser r u then True
      else
        let viewerEmail = toLowerCase (email u);
            viewerDomain = userDomain viewerEmail;
            vis = toLowerCase (case visibility r of
                                 None \<Rightarrow> ''campus''
                               | Some v \<Rightarrow> if v = [] then ''campus'' else v)
        in if vis = ''embargo'' then
             (case embargoUntil r of
                Some t \<Rightarrow> if now < t then False else viewerDomain = MSUIIT_DOMAIN
              | None \<Rightarrow> viewerDomain = MSUIIT_DOMAIN)
           else if vis = ''public'' then True
           else if vis = ''campus'' then viewerDomain = MSUIIT_DOMAIN
           else if vis = ''private'' then
             (let allow = (case allowedViewers r of Some vs \<Rightarrow> vs | None \<Rightarrow> [])
              in viewerEmail \<in> set (map toLowerCase allow))
           else viewerDomain = MSUIIT_DOMAIN)"

subsection \<open>The endpoints of the research routes\<close>

text \<open>\<^verbatim>\<open>GET /research/file/:id/signed\<close>, after \<^verbatim>\<open>authorize()\<close>. The link lives for
  120 seconds.\<close>

definition research_file_signed ::
  "(string \<Rightarrow> research query) \<Rightarrow> int \<Rightarrow> string \<Rightarrow> user \<Rightarrow> response" where
  "research_file_signed findById now pid u =
     (case findById pid of
        Throws \<Rightarrow> Json 500 ''Failed to create signed URL''
      | Result None \<Rightarrow> Json 404 ''Not found''
      | Result (Some r) \<Rightarrow>
          if status r = Some ''approved'' then
            (if canView now r u
             then SignedLink \<lparr>sp_sub = uid u, sp_fileId = rid r, sp_email = [], sp_role = [],
                              sp_isCampus = False\<rparr> (rid r) 120
             else Json 403 ''Not authorized'')
          else Json 404 ''Not found'')"

text \<open>\<^verbatim>\<open>GET /research/file/:id\<close>, after \<^verbatim>\<open>authorizeOrSig()\<close>. \<open>onDisk p\<close> says
  whether the path that \<^verbatim>\<open>resolveAbsPathFromDB\<close> computes from the stored path \<open>p\<close>
  exists; that path is never \<^verbatim>\<open>null\<close> here, the stored path being non-empty.\<close>

definition deliver :: "(string \<Rightarrow> bool) \<Rightarrow> research \<Rightarrow> response" where
  "deliver onDisk r =
     (if onDisk (filePath r)
      then Stream (if fileType r = [] then ''application/pdf'' else fileType r)
                  (if fileName r = [] then ''document.pdf'' else fileName r)
                  (filePath r)
      else Json 404 ''File not found on disk'')"

definition research_file ::
  "(string \<Rightarrow> research query) \<Rightarrow> (string \<Rightarrow> bool) \<Rightarrow> int \<Rightarrow> string \<Rightarrow> user \<Rightarrow> response" where
  "research_file findById onDisk now pid u =
     (case findById pid of
        Throws \<Rightarrow> Json 500 ''Failed to fetch file''
      | Result None \<Rightarrow> Json 404 ''File not found''
      | Result (Some r) \<Rightarrow>
          if filePath r = [] then Json 404 ''File not found''
          else if status r = Some ''approved'' then
            (if signedUrl u then
               (let claimed = (case usig u of Some p \<Rightarrow> sp_fileId p | None \<Rightarrow> [])
                in if claimed = pid then deliver onDisk r
                   else Json 403 ''Signed link does not match file'')
             else if canView now r u then deliver onDisk r
             else Json 403 ''Not authorized to view this file'')
          else Json 404 ''File not found'')"

text \<open>The route: resolver, then handler.\<close>

definition get_research_file ::
  "(string \<Rightarrow> claims option) \<Rightarrow> (string \<Rightarrow> sig_payload option) \<Rightarrow>
   (string \<Rightarrow> research query) \<Rightarrow> (string \<Rightarrow> bool) \<Rightarrow> int \<Rightarrow> request \<Rightarrow> response" where
  "get_research_file verifyBearer verifySig findById onDisk now req =
     (case authorizeOrSig verifyBearer verifySig req of
        Respond code msg \<Rightarrow> Json code msg
      | Next u \<Rightarrow> research_file findById onDisk now (paramId req) u)"

subsection \<open>The repository routes\<close>

text \<open>The Mongo filter of \<^verbatim>\<open>buildAllowedFilter\<close>: the conditions it uses, a conjunction
  of them at top level and the \<^verbatim>\<open>$or\<close> list of conjunctions. Equality against the array
  field \<^verbatim>\<open>allowedViewers\<close> holds when the array has the value as an element;
  \<^verbatim>\<open>{ $ne: null, $lte: now }\<close> needs a date that is present and not after \<open>now\<close>.\<close>

datatype cond =
    Eq_status string
  | Eq_visibility string
  | Embargo_ne_null_lte int
  | Eq_allowedViewers string

record mongo_filter =
  f_base :: "cond list"
  f_or :: "cond list list"

fun holds :: "research \<Rightarrow> cond \<Rightarrow> bool" where
  "holds d (Eq_status s) = (status d = Some s)"
| "holds d (Eq_visibility v) = (visibility d = Some v)"
| "holds d (Embargo_ne_null_lte t) = (case embargoUntil d of None \<Rightarrow> False | Some e \<Rightarrow> e \<le> t)"
| "holds d (Eq_allowedViewers e) = (case allowedViewers d of None \<Rightarrow> False | Some vs \<Rightarrow> e \<in> set vs)"

definition matches :: "mongo_filter \<Rightarrow> research \<Rightarrow> bool" where
  "matches f d = (list_all (holds d) (f_base f) \<and> list_ex (list_all (holds d)) (f_or f))"

text \<open>\<^verbatim>\<open>buildAllowedFilter(user)\<close>, with the default \<^verbatim>\<open>extra = {}\<close>.\<close>

definition buildAllowedFilter :: "int \<Rightarrow> user \<Rightarrow> mongo_filter" where
  "buildAllowedFilter now u =
     \<lparr>f_base = [Eq_status ''approved''],
      f_or = [[Eq_visibility ''public''],
              [Eq_visibility ''embargo'', Embargo_ne_null_lte now],
              [Eq_visibility ''private'', Eq_allowedViewers (toLowerCase (email u))]]
             @ (if isCampus u then [[Eq_visibility ''campus'']] else [])\<rparr>"

text \<open>The expression \<^verbatim>\<open>allowed\<close>, written out twice in the source with the same text:
  in \<^verbatim>\<open>GET /repository/:id\<close> and in \<^verbatim>\<open>GET /repository/file/:id/signed\<close>.\<close>

definition repo_allowed :: "int \<Rightarrow> research \<Rightarrow> user \<Rightarrow> bool" where
  "repo_allowed now r u =
     (visibility r = Some ''public''
      \<or> (visibility r = Some ''embargo''
          \<and> (case embargoUntil r of None \<Rightarrow> False | Some t \<Rightarrow> t \<le> now))
      \<or> (visibility r = Some ''campus'' \<and> isCampus u)
      \<or> (visibility r = Some ''private''
          \<and> (case allowedViewers r of
                None \<Rightarrow> False
              | Some vs \<Rightarrow> toLowerCase (email u) \<in> set (map toLowerCase vs))))"

text \<open>\<^verbatim>\<open>.select(fields)\<close> followed by \<^verbatim>\<open>.lean()\<close>: an inclusive projection. The
  document that the handler sees has \<^verbatim>\<open>_id\<close> and the listed fields; every other
  field is \<^verbatim>\<open>undefined\<close>.\<close>

definition select_fields :: "string list \<Rightarrow> research \<Rightarrow> research" where
  "select_fields fs d =
     \<lparr>rid = rid d,
      status = (if ''status'' \<in> set fs then status d else None),
      visibility = (if ''visibility'' \<in> set fs then visibility d else None),
      embargoUntil = (if ''embargoUntil'' \<in> set fs then embargoUntil d else None),
      allowedViewers = (if ''allowedViewers'' \<in> set fs then allowedViewers d else None),
      student = (if ''student'' \<in> set fs then student d else []),
      author = (if ''author'' \<in> set fs then author d else []),
      adviser = (if ''adviser'' \<in> set fs then adviser d else []),
      uploadedBy = (if ''uploadedBy'' \<in> set fs then uploadedBy d else []),
      filePath = (if ''filePath'' \<in> set fs then filePath d else []),
      fileName = (if ''fileName'' \<in> set fs then fileName d else []),
      fileType = (if ''fileType'' \<in> set fs then fileType d else [])\<rparr>"

definition select_query :: "string list \<Rightarrow> research query \<Rightarrow> research query" where
  "select_query fs q =
     (case q of Throws \<Rightarrow> Throws | Result None \<Rightarrow> Result None
      | Result (Some d) \<Rightarrow> Result (Some (select_fields fs d)))"

text \<open>\<^verbatim>\<open>GET /repository/:id\<close>, after \<^verbatim>\<open>authorize()\<close>. A permitted request is answered
  with the sanitized record, here its id.\<close>

definition detail_fields :: "string list" where
  "detail_fields =
     [''title'', ''author'', ''coAuthors'', ''year'', ''abstract'', ''keywords'', ''category'',
      ''categories'', ''genreTags'', ''landingPageUrl'', ''fileName'', ''uploaderRole'',
      ''createdAt'', ''updatedAt'', ''visibility'', ''embargoUntil'', ''allowedViewers'']"

definition repository_detail ::
  "(string \<Rightarrow> research query) \<Rightarrow> int \<Rightarrow> string \<Rightarrow> user \<Rightarrow> response" where
  "repository_detail findById now pid u =
     (case select_query detail_fields (findById pid) of
        Throws \<Rightarrow> Json 500 ''Failed to fetch research''
      | Result None \<Rightarrow> Json 404 ''Research not found''
      | Result (Some r) \<Rightarrow>
          if status r = Some ''approved'' then
            (if repo_allowed now r u then Json 200 (rid r)
             else Json 403 ''Not authorized to view this item'')
          else Json 404 ''Research not found'')"

text \<open>\<^verbatim>\<open>GET /repository/file/:id/signed\<close>, after \<^verbatim>\<open>authorize()\<close>.\<close>

definition signed_fields :: "string list" where
  "signed_fields = [''status'', ''visibility'', ''embargoUntil'', ''allowedViewers'']"

definition repository_file_signed ::
  "(string \<Rightarrow> research query) \<Rightarrow> int \<Rightarrow> string \<Rightarrow> user \<Rightarrow> response" where
  "repository_file_signed findById now pid u =
     (case select_query signed_fields (findById pid) of
        Throws \<Rightarrow> Json 500 ''Failed to create signed URL''
      | Result None \<Rightarrow> Json 404 ''Not found''
      | Result (Some r) \<Rightarrow>
          if status r = Some ''approved'' then
            (if repo_allowed now r u
             then SignedLink \<lparr>sp_sub = uid u, sp_fileId = rid r, sp_email = email u,
                              sp_role = role u, sp_isCampus = False\<rparr> (rid r) 120
             else Json 403 ''Not authorized'')
          else Json 404 ''Not found'')"

subsection \<open>Response status and sample data\<close>

definition status_code :: "response \<Rightarrow> nat" where
  "status_code resp =
     (case resp of Json code msg \<Rightarrow> code | Stream t n p \<Rightarrow> 200 | SignedLink p i e \<Rightarrow> 200)"

definition streams :: "response \<Rightarrow> bool" where
  "streams resp =
     (case resp of Stream t n p \<Rightarrow> True | Json code msg \<Rightarrow> False | SignedLink p i e \<Rightarrow> False)"

text \<open>An approved campus document, variants of it, a store that holds one document, and
  four principals as \<^verbatim>\<open>authorize()\<close> resolves them: the student who submitted the
  document, a student of the institution, an outside student, an outside staff member.\<close>

definition doc_base :: research where
  "doc_base =
     \<lparr>rid = ''d1'', status = Some ''approved'', visibility = Some ''campus'',
      embargoUntil = None, allowedViewers = Some [], student = ''kim@g.msuiit.edu.ph'',
      author = ''Kim Santos'', adviser = ''lee@g.msuiit.edu.ph'', uploadedBy = ''u7'',
      filePath = ''/uploads/research/d1.pdf'', fileName = ''d1.pdf'',
      fileType = ''application/pdf''\<rparr>"

definition doc_pending :: research where
  "doc_pending = doc_base\<lparr>status := Some ''pending''\<rparr>"

definition doc_embargo :: research where
  "doc_embargo = doc_base\<lparr>visibility := Some ''embargo'', embargoUntil := Some 1000\<rparr>"

definition doc_legacy :: research where
  "doc_legacy = doc_base\<lparr>visibility := None\<rparr>"

definition doc_private :: research where
  "doc_private =
     doc_base\<lparr>visibility := Some ''private'', allowedViewers := Some [''Eve@Gmail.com'']\<rparr>"

definition doc_d2 :: research where
  "doc_d2 = doc_base\<lparr>rid := ''d2'', filePath := ''/uploads/research/d2.pdf''\<rparr>"

definition db_of :: "research \<Rightarrow> string \<Rightarrow> research query" where
  "db_of d pid = (if pid = rid d then Result (Some d) else Result None)"

definition kim :: user where
  "kim = principal_of_claims
           \<lparr>c_id = ''u7'', c_email = ''Kim@g.msuiit.edu.ph'', c_role = ''student''\<rparr>"

definition ann :: user where
  "ann = principal_of_claims
           \<lparr>c_id = ''u2'', c_email = ''Ann@g.msuiit.edu.ph'', c_role = ''student''\<rparr>"

definition eve :: user where
  "eve = principal_of_claims
           \<lparr>c_id = ''u9'', c_email = ''eve@gmail.com'', c_role = ''student''\<rparr>"

definition zed :: user where
  "zed = principal_of_claims
           \<lparr>c_id = ''u3'', c_email = ''zed@contractor.com'', c_role = ''staff''\<rparr>"

text \<open>A request whose bearer token no longer verifies and that carries a signed link, and
  the payload of that link.\<close>

definition cap_d1 :: sig_payload where
  "cap_d1 =
     \<lparr>sp_sub = ''u9'', sp_fileId = ''d1'', sp_email = ''Eve@gmail.com'',
      sp_role = ''student'', sp_isCampus = False\<rparr>"

definition req_stale_bearer :: request where
  "req_stale_bearer =
     \<lparr>authorization = Some ''Bearer expired'', qsig = Some ''cap'', qtoken = None,
      isGet = True, paramId = ''d1''\<rparr>"

text \<open>A request without a bearer token that presents the same signed link for another
  document.\<close>

definition req_sig_d2 :: request where
  "req_sig_d2 =
     \<lparr>authorization = None, qsig = Some ''cap'', qtoken = None, isGet = True,
      paramId = ''d2''\<rparr>"

definition verify_none :: "string \<Rightarrow> claims option" where
  "verify_none t = None"

definition verify_cap :: "string \<Rightarrow> sig_payload option" where
  "verify_cap s = (if s = ''cap'' then Some cap_d1 else None)"

section \<open>Properties\<close>

subsection \<open>Facts about strings\<close>

lemma lower_char_idem: "lower_char (lower_char c) = lower_char c"
  by (simp add: lower_char_def Let_def)

lemma toLowerCase_idem: "toLowerCase (toLowerCase s) = toLowerCase s"
  by (simp add: toLowerCase_def lower_char_idem)

lemma is_space_lower_char: "is_space (lower_char c) = is_space c"
  by (auto simp add: lower_char_def is_space_def Let_def)

lemma toLowerCase_dropWhile:
  "toLowerCase (dropWhile is_space s) = dropWhile is_space (toLowerCase s)"
  by (induction s) (simp_all add: toLowerCase_def is_space_lower_char)

lemma toLowerCase_rev: "toLowerCase (rev s) = rev (toLowerCase s)"
  by (simp add: toLowerCase_def rev_map)

lemma toLowerCase_trim: "toLowerCase (trim s) = trim (toLowerCase s)"
  by (simp add: trim_def toLowerCase_rev toLowerCase_dropWhile)

lemma sameEmail_lower: "toLowerCase a = toLowerCase b \<Longrightarrow> sameEmail (toLowerCase a) b"
  by (simp add: sameEmail_def toLowerCase_trim toLowerCase_idem)

lemma toLowerCase_Nil: "toLowerCase s = [] \<longleftrightarrow> s = []"
  by (simp add: toLowerCase_def)

subsection \<open>The resolver falls through from a failed bearer token to the signed link\<close>

text \<open>
  Claim C10. In \<^verbatim>\<open>authorizeOrSig\<close>, a request with an \<^verbatim>\<open>Authorization: Bearer\<close> header
  whose token fails verification, and with a \<^verbatim>\<open>?sig\<close> that verifies and carries a file
  id and a subject, is not denied: the resolver goes on to the signed-link path and the
  request proceeds as the subject of the signed link.
\<close>

theorem bearer_failure_falls_through_to_sig:
  assumes hdr: "authorization req = Some (''Bearer '' @ tok)"
      and bad: "verifyBearer tok = None"
      and sig: "qsig req = Some s" "s \<noteq> []"
      and ok: "verifySig s = Some p" "sp_fileId p \<noteq> []" "sp_sub p \<noteq> []"
  shows "authorizeOrSig verifyBearer verifySig req =
           Next \<lparr>uid = sp_sub p, email = toLowerCase (sp_email p), role = sp_role p,
                 isCampus = sp_isCampus p, signedUrl = True, usig = Some p\<rparr>"
proof -
  have b: "bearer_of (''Bearer '' @ tok) = Some tok"
    by (simp add: bearer_of_def)
  have s: "sig_path verifySig req = Next (principal_of_sig p)"
    using sig ok by (simp add: sig_path_def)
  show ?thesis
    using hdr bad b s by (simp add: authorizeOrSig_def principal_of_sig_def)
qed

theorem bearer_failure_falls_through_to_sig_witness:
  "authorizeOrSig verify_none verify_cap req_stale_bearer =
     Next \<lparr>uid = ''u9'', email = ''eve@gmail.com'', role = ''student'',
           isCampus = False, signedUrl = True, usig = Some cap_d1\<rparr>"
proof -
  have l: "toLowerCase ''Eve@gmail.com'' = ''eve@gmail.com''"
    by code_simp
  show ?thesis
    using bearer_failure_falls_through_to_sig
            [of req_stale_bearer "''expired''" verify_none "''cap''" verify_cap cap_d1] l
    by (simp add: req_stale_bearer_def cap_d1_def verify_none_def verify_cap_def)
qed

subsection \<open>Documents that are not approved\<close>

text \<open>
  Claim C4. For a document whose status is not \<^verbatim>\<open>approved\<close>, whoever asks and whenever,
  the file streamer answers 404 and streams nothing, whichever way the request was
  resolved, and neither signed-link endpoint mints a link: both answer 404.
\<close>

theorem unapproved_never_delivered:
  assumes found: "findById (paramId req) = Result (Some r)"
      and st: "status r \<noteq> Some ''approved''"
  shows "research_file findById onDisk now (paramId req) u = Json 404 ''File not found''
       \<and> research_file_signed findById now (paramId req) u = Json 404 ''Not found''
       \<and> repository_file_signed findById now (paramId req) u = Json 404 ''Not found''
       \<and> streams (get_research_file verifyBearer verifySig findById onDisk now req) = False"
proof -
  have a: "research_file findById onDisk now (paramId req) v = Json 404 ''File not found''" for v
    using found st by (simp add: research_file_def)
  have b: "research_file_signed findById now (paramId req) u = Json 404 ''Not found''"
    using found st by (simp add: research_file_signed_def)
  have "status (select_fields signed_fields r) = status r"
    by (simp add: select_fields_def signed_fields_def)
  then have c: "repository_file_signed findById now (paramId req) u = Json 404 ''Not found''"
    using found st by (simp add: repository_file_signed_def select_query_def)
  have d: "streams (get_research_file verifyBearer verifySig findById onDisk now req) = False"
    by (cases "authorizeOrSig verifyBearer verifySig req")
       (simp_all add: get_research_file_def a streams_def)
  from a b c d show ?thesis by simp
qed

theorem unapproved_never_delivered_witness:
  "research_file (db_of doc_pending) (\<lambda>p. True) 2000 ''d1'' kim = Json 404 ''File not found''
   \<and> research_file_signed (db_of doc_pending) 2000 ''d1'' kim = Json 404 ''Not found''
   \<and> repository_file_signed (db_of doc_pending) 2000 ''d1'' kim = Json 404 ''Not found''
   \<and> streams (get_research_file verify_none verify_cap (db_of doc_pending) (\<lambda>p. True) 2000
                 req_stale_bearer) = False"
proof -
  have p: "paramId req_stale_bearer = ''d1''"
    by (simp add: req_stale_bearer_def)
  have f: "db_of doc_pending (paramId req_stale_bearer) = Result (Some doc_pending)"
    by (simp add: db_of_def doc_pending_def doc_base_def req_stale_bearer_def)
  have s: "status doc_pending \<noteq> Some ''approved''"
    by (simp add: doc_pending_def doc_base_def)
  show ?thesis
    using unapproved_never_delivered
            [of "db_of doc_pending" req_stale_bearer doc_pending "\<lambda>p. True" 2000 kim
                verify_none verify_cap] f s p
    by simp
qed

subsection \<open>Owners\<close>

text \<open>
  Claim C6. For an approved document and a principal whose identity matches, whatever the
  case of the letters, the document's author, student or adviser, or who uploaded it,
  the gate allows at every time, for every visibility and whatever the embargo; the
  signed-link endpoint of the research routes mints the link.
\<close>

theorem owner_always_allowed:
  assumes ident: "email u \<noteq> []"
      and own: "toLowerCase (email u) = toLowerCase (author r)
              \<or> toLowerCase (email u) = toLowerCase (student r)
              \<or> uid u = uploadedBy r
              \<or> toLowerCase (email u) = toLowerCase (adviser r)"
      and found: "findById pid = Result (Some r)"
      and appr: "status r = Some ''approved''"
  shows "canView now r u
       \<and> research_file_signed findById now pid u =
           SignedLink \<lparr>sp_sub = uid u, sp_fileId = rid r, sp_email = [], sp_role = [],
                       sp_isCampus = False\<rparr> (rid r) 120"
proof -
  have "isOwnerStaffOrAdviser r u"
  proof -
    from own consider
        (a) "toLowerCase (email u) = toLowerCase (author r)"
      | (s) "toLowerCase (email u) = toLowerCase (student r)"
      | (p) "uid u = uploadedBy r"
      | (d) "toLowerCase (email u) = toLowerCase (adviser r)"
      by blast
    then show ?thesis
    proof cases
      case a then show ?thesis by (simp add: isOwnerStaffOrAdviser_def)
    next
      case s then show ?thesis by (simp add: isOwnerStaffOrAdviser_def)
    next
      case p then show ?thesis by (simp add: isOwnerStaffOrAdviser_def)
    next
      case d
      then have "sameEmail (toLowerCase (email u)) (adviser r)"
        by (rule sameEmail_lower)
      moreover have "toLowerCase (email u) \<noteq> []"
        using ident by (simp add: toLowerCase_Nil)
      ultimately show ?thesis by (simp add: isOwnerStaffOrAdviser_def)
    qed
  qed
  then have cv: "canView now r u"
    by (simp add: canView_def)
  then show ?thesis
    using found appr by (simp add: research_file_signed_def)
qed

theorem owner_always_allowed_witness:
  "canView 500 doc_embargo kim
   \<and> research_file_signed (db_of doc_embargo) 500 ''d1'' kim =
       SignedLink \<lparr>sp_sub = ''u7'', sp_fileId = ''d1'', sp_email = [], sp_role = [],
                   sp_isCampus = False\<rparr> ''d1'' 120"
proof -
  have i: "email kim \<noteq> []"
    by code_simp
  have m: "toLowerCase (email kim) = toLowerCase (author doc_embargo)
         \<or> toLowerCase (email kim) = toLowerCase (student doc_embargo)
         \<or> uid kim = uploadedBy doc_embargo
         \<or> toLowerCase (email kim) = toLowerCase (adviser doc_embargo)"
    by code_simp
  have f: "db_of doc_embargo ''d1'' = Result (Some doc_embargo)"
    by (simp add: db_of_def doc_embargo_def doc_base_def)
  have a: "status doc_embargo = Some ''approved''"
    by (simp add: doc_embargo_def doc_base_def)
  have u: "uid kim = ''u7''"
    by (simp add: kim_def principal_of_claims_def Let_def)
  have r: "rid doc_embargo = ''d1''"
    by (simp add: doc_embargo_def doc_base_def)
  show ?thesis
    using owner_always_allowed [of kim doc_embargo "db_of doc_embargo" "''d1''" 500] i m f a u r
    by simp
qed

subsection \<open>Private documents\<close>

lemma isOwner_email_lowered:
  "isOwnerStaffOrAdviser (r\<lparr>allowedViewers := a\<rparr>) (u\<lparr>email := toLowerCase (email u)\<rparr>)
     = isOwnerStaffOrAdviser r u"
  by (simp add: isOwnerStaffOrAdviser_def toLowerCase_idem)

lemma isOwner_allowedViewers:
  "isOwnerStaffOrAdviser (r\<lparr>allowedViewers := a\<rparr>) u = isOwnerStaffOrAdviser r u"
  by (simp add: isOwnerStaffOrAdviser_def)

lemma canView_private:
  assumes "\<not> isOwnerStaffOrAdviser r u"
      and "visibility r = Some v" and "toLowerCase v = ''private''"
  shows "canView now r u =
           (toLowerCase (email u) \<in>
              set (map toLowerCase (case allowedViewers r of Some vs \<Rightarrow> vs | None \<Rightarrow> [])))"
proof -
  from assms(3) have "v \<noteq> []" by (auto simp add: toLowerCase_def)
  with assms show ?thesis
    by (simp add: canView_def Let_def)
qed

text \<open>
  Claim C7. For a private document and a principal who is neither owner nor staff, the
  gate allows exactly when the lowercased identity is among the lowercased allowed
  viewers; an empty list (or none) denies, and the case of the letters on either side
  does not change the decision.
\<close>

theorem private_allow_iff_listed:
  assumes nown: "\<not> isOwnerStaffOrAdviser r u"
      and vis: "visibility r = Some v" "toLowerCase v = ''private''"
      and av: "allowedViewers r = Some vs"
  shows "canView now r u = (toLowerCase (email u) \<in> set (map toLowerCase vs))
       \<and> canView now (r\<lparr>allowedViewers := Some []\<rparr>) u = False
       \<and> canView now (r\<lparr>allowedViewers := None\<rparr>) u = False
       \<and> canView now (r\<lparr>allowedViewers := Some (map toLowerCase vs)\<rparr>)
                      (u\<lparr>email := toLowerCase (email u)\<rparr>) = canView now r u"
proof -
  have a: "canView now r u = (toLowerCase (email u) \<in> set (map toLowerCase vs))"
    using canView_private [OF nown vis] av by simp
  have n1: "\<not> isOwnerStaffOrAdviser (r\<lparr>allowedViewers := Some []\<rparr>) u"
    using nown by (simp add: isOwner_allowedViewers)
  have b: "canView now (r\<lparr>allowedViewers := Some []\<rparr>) u = False"
    using canView_private [OF n1, of v now] vis by simp
  have n2: "\<not> isOwnerStaffOrAdviser (r\<lparr>allowedViewers := None\<rparr>) u"
    using nown by (simp add: isOwner_allowedViewers)
  have c: "canView now (r\<lparr>allowedViewers := None\<rparr>) u = False"
    using canView_private [OF n2, of v now] vis by simp
  have n3: "\<not> isOwnerStaffOrAdviser (r\<lparr>allowedViewers := Some (map toLowerCase vs)\<rparr>)
                (u\<lparr>email := toLowerCase (email u)\<rparr>)"
    using nown by (simp add: isOwner_email_lowered)
  have d: "canView now (r\<lparr>allowedViewers := Some (map toLowerCase vs)\<rparr>)
                      (u\<lparr>email := toLowerCase (email u)\<rparr>)
             = (toLowerCase (email u) \<in> set (map toLowerCase vs))"
    using canView_private [OF n3, of v now] vis
    by (simp add: toLowerCase_idem o_def)
  from a b c d show ?thesis by simp
qed

theorem private_allow_iff_listed_witness:
  "canView 2000 doc_private eve = True
   \<and> canView 2000 (doc_private\<lparr>allowedViewers := Some []\<rparr>) eve = False
   \<and> canView 2000 (doc_private\<lparr>allowedViewers := None\<rparr>) eve = False
   \<and> canView 2000 (doc_private\<lparr>allowedViewers := Some (map toLowerCase [''Eve@Gmail.com''])\<rparr>)
                   (eve\<lparr>email := toLowerCase (email eve)\<rparr>) = True"
proof -
  have n: "\<not> isOwnerStaffOrAdviser doc_private eve"
    by code_simp
  have v: "visibility doc_private = Some ''private''"
    by (simp add: doc_private_def doc_base_def)
  have l: "toLowerCase ''private'' = ''private''"
    by code_simp
  have a: "allowedViewers doc_private = Some [''Eve@Gmail.com'']"
    by (simp add: doc_private_def doc_base_def)
  have m: "toLowerCase (email eve) \<in> set (map toLowerCase [''Eve@Gmail.com''])"
    by code_simp
  show ?thesis
    using private_allow_iff_listed [OF n v l a, of 2000] m by simp
qed

subsection \<open>A signed link presented for another document\<close>

text \<open>
  Claim C8, as stated: a signed link that verifies and is bound to another document than
  the one requested is answered with 403. It is not when the requested document is
  absent: the streamer looks the document up first and answers 404.
\<close>

theorem sig_mismatch_on_absent_document:
  "sp_fileId cap_d1 \<noteq> paramId req_sig_d2
   \<and> authorizeOrSig verify_none verify_cap req_sig_d2 = Next (principal_of_sig cap_d1)
   \<and> get_research_file verify_none verify_cap (db_of doc_base) (\<lambda>p. True) 2000 req_sig_d2
       = Json 404 ''File not found''
   \<and> status_code
        (get_research_file verify_none verify_cap (db_of doc_base) (\<lambda>p. True) 2000 req_sig_d2)
       \<noteq> 403"
  by code_simp

text \<open>
  Claim C8, amended. A request resolved through a signed link bound to another document
  than the one requested never streams: the answer is 403 when the requested document is
  found, has a stored path and is approved, 404 when it is absent, has no path or is not
  approved, and 500 when the lookup throws. The binding is compared with the requested id
  on every such request.
\<close>

theorem sig_mismatch_rejected:
  assumes res: "authorizeOrSig verifyBearer verifySig req = Next (principal_of_sig p)"
      and mis: "sp_fileId p \<noteq> paramId req"
  shows "get_research_file verifyBearer verifySig findById onDisk now req =
           (case findById (paramId req) of
              Throws \<Rightarrow> Json 500 ''Failed to fetch file''
            | Result None \<Rightarrow> Json 404 ''File not found''
            | Result (Some r) \<Rightarrow>
                if filePath r = [] then Json 404 ''File not found''
                else if status r = Some ''approved''
                then Json 403 ''Signed link does not match file''
                else Json 404 ''File not found'')
       \<and> streams (get_research_file verifyBearer verifySig findById onDisk now req) = False"
proof -
  have u: "signedUrl (principal_of_sig p)" "usig (principal_of_sig p) = Some p"
    by (simp_all add: principal_of_sig_def)
  have a: "get_research_file verifyBearer verifySig findById onDisk now req =
           (case findById (paramId req) of
              Throws \<Rightarrow> Json 500 ''Failed to fetch file''
            | Result None \<Rightarrow> Json 404 ''File not found''
            | Result (Some r) \<Rightarrow>
                if filePath r = [] then Json 404 ''File not found''
                else if status r = Some ''approved''
                then Json 403 ''Signed link does not match file''
                else Json 404 ''File not found'')"
    using res mis u
    by (simp add: get_research_file_def research_file_def split: query.splits option.splits)
  have "streams (get_research_file verifyBearer verifySig findById onDisk now req) = False"
    unfolding a by (simp add: streams_def split: query.splits option.splits)
  with a show ?thesis by simp
qed

theorem sig_mismatch_rejected_witness:
  "get_research_file verify_none verify_cap (db_of doc_d2) (\<lambda>p. True) 2000 req_sig_d2
     = Json 403 ''Signed link does not match file''
   \<and> streams (get_research_file verify_none verify_cap (db_of doc_d2) (\<lambda>p. True) 2000 req_sig_d2)
     = False"
proof -
  have r: "authorizeOrSig verify_none verify_cap req_sig_d2 = Next (principal_of_sig cap_d1)"
    by code_simp
  have m: "sp_fileId cap_d1 \<noteq> paramId req_sig_d2"
    by code_simp
  have f: "db_of doc_d2 (paramId req_sig_d2) = Result (Some doc_d2)"
    by code_simp
  have p: "filePath doc_d2 \<noteq> []" "status doc_d2 = Some ''approved''"
    by (simp_all add: doc_d2_def doc_base_def)
  show ?thesis
    using sig_mismatch_rejected [of verify_none verify_cap req_sig_d2 cap_d1 "db_of doc_d2" "\<lambda>p. True" 2000]
          r m f p
    by (simp add: streams_def)
qed

subsection \<open>Not-found responses of the streamer\<close>

text \<open>
  Claim C9, as stated: document absent, document not approved and bytes missing on disk
  get the same status and the same body. The body differs when the bytes are missing.
\<close>

theorem not_found_bodies_differ:
  "research_file (db_of doc_base) (\<lambda>p. True) 2000 ''d2'' ann = Json 404 ''File not found''
   \<and> research_file (db_of doc_pending) (\<lambda>p. True) 2000 ''d1'' ann = Json 404 ''File not found''
   \<and> research_file (db_of doc_base) (\<lambda>p. False) 2000 ''d1'' ann = Json 404 ''File not found on disk''
   \<and> research_file (db_of doc_base) (\<lambda>p. False) 2000 ''d1'' ann
       \<noteq> research_file (db_of doc_base) (\<lambda>p. True) 2000 ''d2'' ann"
  by code_simp

text \<open>
  Claim C9, amended. The streamer answers 404 in all three cases. The body is
  \<^verbatim>\<open>File not found\<close> for an absent document and for one that is not approved, so these
  two cannot be told apart; it is \<^verbatim>\<open>File not found on disk\<close> when an authorized
  request finds the bytes missing.
\<close>

theorem not_found_responses:
  assumes absent: "findById1 pid = Result None"
      and unapproved: "findById2 pid = Result (Some r2)" "status r2 \<noteq> Some ''approved''"
      and stored: "findById3 pid = Result (Some r3)" "status r3 = Some ''approved''"
                  "filePath r3 \<noteq> []"
      and authorized: "(signedUrl u \<and> usig u = Some p \<and> sp_fileId p = pid)
                       \<or> (signedUrl u = False \<and> canView now r3 u)"
      and missing: "onDisk (filePath r3) = False"
  shows "research_file findById1 onDisk now pid u = Json 404 ''File not found''
       \<and> research_file findById2 onDisk now pid u = Json 404 ''File not found''
       \<and> research_file findById3 onDisk now pid u = Json 404 ''File not found on disk''
       \<and> status_code (research_file findById1 onDisk now pid u) = 404
       \<and> status_code (research_file findById2 onDisk now pid u) = 404
       \<and> status_code (research_file findById3 onDisk now pid u) = 404"
proof -
  have a: "research_file findById1 onDisk now pid u = Json 404 ''File not found''"
    using absent by (simp add: research_file_def)
  have b: "research_file findById2 onDisk now pid u = Json 404 ''File not found''"
    using unapproved by (simp add: research_file_def)
  have c: "research_file findById3 onDisk now pid u = Json 404 ''File not found on disk''"
    using stored authorized missing
    by (auto simp add: research_file_def deliver_def)
  from a b c show ?thesis
    by (simp add: status_code_def)
qed

theorem not_found_responses_witness:
  "research_file (db_of doc_d2) (\<lambda>p. False) 2000 ''d1'' ann = Json 404 ''File not found''
   \<and> research_file (db_of doc_pending) (\<lambda>p. False) 2000 ''d1'' ann = Json 404 ''File not found''
   \<and> research_file (db_of doc_base) (\<lambda>p. False) 2000 ''d1'' ann
       = Json 404 ''File not found on disk''"
proof -
  have a: "db_of doc_d2 ''d1'' = Result None"
    by code_simp
  have b: "db_of doc_pending ''d1'' = Result (Some doc_pending)"
          "status doc_pending \<noteq> Some ''approved''"
    by (simp_all add: db_of_def doc_pending_def doc_base_def)
  have c: "db_of doc_base ''d1'' = Result (Some doc_base)"
          "status doc_base = Some ''approved''" "filePath doc_base \<noteq> []"
    by (simp_all add: db_of_def doc_base_def)
  have d: "signedUrl ann = False \<and> canView 2000 doc_base ann"
    by code_simp
  show ?thesis
    using not_found_responses
            [of "db_of doc_d2" "''d1''" "db_of doc_pending" doc_pending "db_of doc_base"
                doc_base ann cap_d1 2000 "\<lambda>p. False"]
          a b c d
    by simp
qed

subsection \<open>Domain affiliation\<close>

text \<open>The two tests of affiliation in the source agree: the end-anchored match of
  \<^verbatim>\<open>isMsuiitG\<close>, from which \<^verbatim>\<open>authorize\<close> sets \<^verbatim>\<open>isCampus\<close>, and the comparison of
  \<^verbatim>\<open>userDomain\<close> with \<^verbatim>\<open>MSUIIT_DOMAIN\<close> in \<^verbatim>\<open>canView\<close>.\<close>

lemma lastIndexOf_None: "lastIndexOf c xs = None \<longleftrightarrow> c \<notin> set xs"
  by (induction xs) (auto split: option.splits)

lemma lastIndexOf_append:
  "c \<notin> set ys \<Longrightarrow> lastIndexOf c (zs @ c # ys) = Some (length zs)"
proof (induction zs)
  case Nil
  then show ?case by (simp add: lastIndexOf_None split: option.splits)
next
  case (Cons z zs)
  then show ?case by simp
qed

lemma userDomain_iff_isMsuiitG: "userDomain e = MSUIIT_DOMAIN \<longleftrightarrow> isMsuiitG e"
proof
  assume d: "userDomain e = MSUIIT_DOMAIN"
  then obtain at where "lastIndexOf (CHR ''@'') (toLowerCase e) = Some at"
      and "drop at (toLowerCase e) = MSUIIT_DOMAIN"
    by (auto simp add: userDomain_def Let_def MSUIIT_DOMAIN_def split: option.splits)
  then have "suffix MSUIIT_DOMAIN (toLowerCase e)"
    by (metis suffix_drop)
  then show "isMsuiitG e"
    by (simp add: isMsuiitG_def MSUIIT_DOMAIN_def)
next
  assume "isMsuiitG e"
  then obtain zs where z: "toLowerCase e = zs @ CHR ''@'' # ''g.msuiit.edu.ph''"
    by (auto simp add: isMsuiitG_def suffix_def)
  have "CHR ''@'' \<notin> set ''g.msuiit.edu.ph''"
    by simp
  then have "lastIndexOf (CHR ''@'') (zs @ CHR ''@'' # ''g.msuiit.edu.ph'') = Some (length zs)"
    by (rule lastIndexOf_append)
  with z show "userDomain e = MSUIIT_DOMAIN"
    by (simp add: userDomain_def Let_def MSUIIT_DOMAIN_def)
qed

lemma principal_of_claims_campus:
  "isCampus (principal_of_claims d) =
     (userDomain (toLowerCase (email (principal_of_claims d))) = MSUIIT_DOMAIN)"
  by (simp add: principal_of_claims_def Let_def userDomain_iff_isMsuiitG toLowerCase_idem isMsuiitG_def)

subsection \<open>The branches of the gate\<close>

lemma canView_embargo:
  assumes "\<not> isOwnerStaffOrAdviser r u"
      and "visibility r = Some v" and "toLowerCase v = ''embargo''"
      and "embargoUntil r = Some t"
  shows "canView now r u = (t \<le> now \<and> userDomain (toLowerCase (email u)) = MSUIIT_DOMAIN)"
proof -
  from assms(3) have "v \<noteq> []" by (auto simp add: toLowerCase_def)
  with assms show ?thesis
    by (auto simp add: canView_def Let_def)
qed

lemma canView_fallback:
  assumes "\<not> isOwnerStaffOrAdviser r u"
      and "toLowerCase (case visibility r of None \<Rightarrow> ''campus''
                        | Some v \<Rightarrow> if v = [] then ''campus'' else v)
             \<notin> {''embargo'', ''public'', ''private''}"
  shows "canView now r u = (userDomain (toLowerCase (email u)) = MSUIIT_DOMAIN)"
  using assms by (simp add: canView_def Let_def)

lemma canView_staff:
  assumes "toLowerCase (role u) = ''staff'' \<or> toLowerCase (role u) = ''admin''"
  shows "canView now r u"
  using assms by (auto simp add: canView_def isOwnerStaffOrAdviser_def Let_def)

subsection \<open>The filter of the repository list\<close>

text \<open>What the filter admits, its agreement with the single-item check of the repository
  routes, and its agreement with the gate on public, campus and private documents.\<close>

lemma matches_buildAllowedFilter:
  "matches (buildAllowedFilter now u) d =
     (status d = Some ''approved''
      \<and> (visibility d = Some ''public''
         \<or> (visibility d = Some ''embargo''
             \<and> (case embargoUntil d of None \<Rightarrow> False | Some t \<Rightarrow> t \<le> now))
         \<or> (visibility d = Some ''private''
             \<and> (case allowedViewers d of None \<Rightarrow> False
                 | Some vs \<Rightarrow> toLowerCase (email u) \<in> set vs))
         \<or> (isCampus u \<and> visibility d = Some ''campus'')))"
  by (cases "isCampus u") (auto simp add: matches_def buildAllowedFilter_def)

lemma filter_is_repository_check:
  assumes "allowedViewers d = Some vs" and "map toLowerCase vs = vs"
  shows "matches (buildAllowedFilter now u) d =
           (status d = Some ''approved'' \<and> repo_allowed now d u)"
  using assms by (auto simp add: matches_buildAllowedFilter repo_allowed_def)

lemma filter_agrees_with_gate_on_three_classes:
  assumes u: "u = principal_of_claims c"
      and nown: "\<not> isOwnerStaffOrAdviser d u"
      and appr: "status d = Some ''approved''"
      and vis: "visibility d = Some v" "v \<in> {''public'', ''campus'', ''private''}"
      and low: "allowedViewers d = Some vs" "map toLowerCase vs = vs"
  shows "matches (buildAllowedFilter now u) d = canView now d u"
proof -
  have c: "isCampus u = (userDomain (toLowerCase (email u)) = MSUIIT_DOMAIN)"
    unfolding u by (rule principal_of_claims_campus)
  from vis(2) consider "v = ''public''" | "v = ''campus''" | "v = ''private''"
    by blast
  then show ?thesis
  proof cases
    case 1
    have "toLowerCase ''public'' = ''public''" by code_simp
    with 1 nown appr vis(1) show ?thesis
      by (simp add: matches_buildAllowedFilter canView_def Let_def)
  next
    case 2
    have "toLowerCase ''campus'' = ''campus''" by code_simp
    with 2 nown appr vis(1) c show ?thesis
      by (simp add: matches_buildAllowedFilter canView_def Let_def)
  next
    case 3
    have "toLowerCase ''private'' = ''private''" by code_simp
    moreover have "toLowerCase ` set vs = set vs"
      using low(2) by (metis set_map)
    ultimately show ?thesis
      using 3 nown appr vis(1) low(1)
      by (simp add: matches_buildAllowedFilter canView_def Let_def)
  qed
qed

subsection \<open>Where the repository routes leave the gate\<close>

text \<open>\<^verbatim>\<open>GET /repository/:id\<close> projects \<^verbatim>\<open>status\<close> away before it tests it, so it never
  answers with the record.\<close>

lemma repository_detail_never_found:
  "status_code (repository_detail findById now pid u) \<in> {404, 500}"
  by (simp add: repository_detail_def select_query_def select_fields_def detail_fields_def status_code_def
      split: query.splits option.splits)

text \<open>
  Claim C1. On every path, an embargo document is denied to a principal who is neither
  owner nor staff before \<^verbatim>\<open>embargoUntil\<close>, and from then on allowed exactly to the
  domain-affiliated. The gate \<^verbatim>\<open>canView\<close> does so (lemma \<open>canView_embargo\<close>); the
  repository routes do not. For an approved embargo document released at 1000 and an
  outside student at 2000: the gate denies and the research routes refuse the link, the
  list filter admits the document, the repository route mints a link, and the streamer
  delivers the file for that link.
\<close>

theorem embargo_released_external_divergence:
  "isOwnerStaffOrAdviser doc_embargo eve = False
   \<and> canView 2000 doc_embargo eve = False
   \<and> research_file_signed (db_of doc_embargo) 2000 ''d1'' eve = Json 403 ''Not authorized''
   \<and> matches (buildAllowedFilter 2000 eve) doc_embargo = True
   \<and> repository_file_signed (db_of doc_embargo) 2000 ''d1'' eve =
       SignedLink \<lparr>sp_sub = ''u9'', sp_fileId = ''d1'', sp_email = ''eve@gmail.com'',
                   sp_role = ''student'', sp_isCampus = False\<rparr> ''d1'' 120
   \<and> research_file (db_of doc_embargo) (\<lambda>p. True) 2000 ''d1''
        (principal_of_sig \<lparr>sp_sub = ''u9'', sp_fileId = ''d1'', sp_email = ''eve@gmail.com'',
                           sp_role = ''student'', sp_isCampus = False\<rparr>)
       = Stream ''application/pdf'' ''d1.pdf'' ''/uploads/research/d1.pdf''"
  by code_simp

text \<open>
  Claim C2. The list filter admits a document exactly when the gate allows it, on the
  branches that are not about ownership. It does not: the filter admits a released
  embargo document for an outside student whom the gate denies, and rejects a document
  without a visibility for a student of the institution whom the gate allows.
\<close>

theorem filter_and_gate_disagree:
  "isOwnerStaffOrAdviser doc_embargo eve = False
   \<and> matches (buildAllowedFilter 2000 eve) doc_embargo \<noteq> canView 2000 doc_embargo eve
   \<and> isOwnerStaffOrAdviser doc_legacy ann = False
   \<and> matches (buildAllowedFilter 2000 ann) doc_legacy \<noteq> canView 2000 doc_legacy ann"
  by code_simp

text \<open>
  Claim C3. For an approved document, every single-document decision allows a staff or
  admin principal, whatever the domain. The gate does (lemma \<open>canView_staff\<close>): the
  streamer delivers and the research routes mint a link. The repository routes have no
  such rule: for an outside staff member and a campus document the signed-link endpoint
  answers 403 and the single-item endpoint 404.
\<close>

theorem staff_denied_by_repository_routes:
  "role zed = ''staff''
   \<and> research_file (db_of doc_base) (\<lambda>p. True) 2000 ''d1'' zed
       = Stream ''application/pdf'' ''d1.pdf'' ''/uploads/research/d1.pdf''
   \<and> research_file_signed (db_of doc_base) 2000 ''d1'' zed =
       SignedLink \<lparr>sp_sub = ''u3'', sp_fileId = ''d1'', sp_email = [], sp_role = [],
                   sp_isCampus = False\<rparr> ''d1'' 120
   \<and> repository_file_signed (db_of doc_base) 2000 ''d1'' zed = Json 403 ''Not authorized''
   \<and> repository_detail (db_of doc_base) 2000 ''d1'' zed = Json 404 ''Research not found''"
  by code_simp

text \<open>
  Claim C5. A document whose visibility is missing or unknown gets the campus rule on
  every path: allowed exactly to the domain-affiliated. The gate does so (lemma
  \<open>canView_fallback\<close>); the repository routes deny everybody. For an approved document
  without a visibility and a student of the institution: the gate allows, the repository
  check, its signed-link endpoint and the list filter deny.
\<close>

theorem missing_visibility_denied_by_repository_routes:
  "visibility doc_legacy = None
   \<and> isCampus ann = True
   \<and> isOwnerStaffOrAdviser doc_legacy ann = False
   \<and> canView 2000 doc_legacy ann = True
   \<and> canView 2000 doc_legacy eve = False
   \<and> repo_allowed 2000 doc_legacy ann = False
   \<and> repository_file_signed (db_of doc_legacy) 2000 ''d1'' ann = Json 403 ''Not authorized''
   \<and> matches (buildAllowedFilter 2000 ann) doc_legacy = False"
  by code_simp

end
